theory Spec2Isabelle
  imports Main "HOL-Library.Sublist"
begin

section \<open>The Bedrock Runtime provider adapter (src/api/providers/bedrock-runtime.ts)\<close>

text \<open>
  A shallow embedding of the class \<^verbatim>\<open>AwsBedrockRuntimeHandler\<close>: the content formatter
  (\<^verbatim>\<open>formatContent\<close>), the model resolver (\<^verbatim>\<open>getModel\<close>, \<^verbatim>\<open>isNovaModel\<close>,
  \<^verbatim>\<open>shouldUseRuntime\<close>), the request builder and the stream decoder (both inside
  \<^verbatim>\<open>createMessage\<close>). JavaScript strings are modelled as \<^typ>\<open>string\<close>, token counts as
  \<^typ>\<open>int\<close>, an optional or possibly \<^verbatim>\<open>undefined\<close> property as an \<^typ>\<open>'a option\<close>.
\<close>

subsection \<open>JavaScript string operations\<close>

text \<open>
  \<^verbatim>\<open>String.prototype.toLowerCase\<close>, on the ASCII letters (model identifiers are ASCII; a byte
  outside \<^verbatim>\<open>A\<close>..\<^verbatim>\<open>Z\<close> is left as it is).
\<close>

definition toLowerChar :: "char \<Rightarrow> char" where
  "toLowerChar c =
     (case map_of (zip ''ABCDEFGHIJKLMNOPQRSTUVWXYZ'' ''abcdefghijklmnopqrstuvwxyz'') c of
        None \<Rightarrow> c
      | Some l \<Rightarrow> l)"

definition toLowerCase :: "string \<Rightarrow> string" where
  "toLowerCase s = map toLowerChar s"

text \<open>\<^verbatim>\<open>s.includes(p)\<close>: \<open>p\<close> occurs in \<open>s\<close> as a contiguous substring.\<close>

fun str_includes :: "string \<Rightarrow> string \<Rightarrow> bool" where
  "str_includes [] p = (p = [])"
| "str_includes (c # s) p = (prefix p (c # s) \<or> str_includes s p)"

text \<open>
  \<^verbatim>\<open>Array.prototype.join\<close> on an array of strings: the separator stands between two
  neighbours only, and the empty array joins to the empty string.
\<close>

fun join :: "string \<Rightarrow> string list \<Rightarrow> string" where
  "join sep [] = []"
| "join sep [x] = x"
| "join sep (x # y # ys) = x @ sep @ join sep (y # ys)"

text \<open>
  \<^verbatim>\<open>v || d\<close> on an optional number and on an optional string: the default is taken when
  the value is absent and also when it is falsy, that is the number 0 or the empty string.
\<close>

definition num_or :: "int option \<Rightarrow> int \<Rightarrow> int" where
  "num_or v d = (case v of None \<Rightarrow> d | Some n \<Rightarrow> if n = 0 then d else n)"

definition str_or :: "string option \<Rightarrow> string \<Rightarrow> string" where
  "str_or v d = (case v of None \<Rightarrow> d | Some s \<Rightarrow> if s = [] then d else s)"

subsection \<open>Content formatter\<close>

text \<open>
  A content block is a tagged variant: \<^verbatim>\<open>{type: 'text', text}\<close>, \<^verbatim>\<open>{type: 'image', source}\<close>,
  \<^verbatim>\<open>{type: 'tool_use', name}\<close>, or a block with any other tag (kept in \<open>UnknownBlock\<close>).
\<close>

datatype ContentBlock =
    TextBlock string
  | ImageBlock string
  | ToolUseBlock string
  | UnknownBlock string

text \<open>
  \<^verbatim>\<open>
  private formatContent(content: any[]): string {
      return content.map(block => {
          switch (block.type) {
              case 'text':     return block.text
              case 'image':    return `[Image: ${block.source}]`
              case 'tool_use': return `[Tool: ${block.name}]`
              default:         return '[Unknown Block]'
          }
      }).join(' ')
  }
  \<close>
\<close>

definition formatContent :: "ContentBlock list \<Rightarrow> string" where
  "formatContent content =
     join '' ''
       (map (\<lambda>block. case block of
                 TextBlock text \<Rightarrow> text
               | ImageBlock source \<Rightarrow> ''[Image: '' @ source @ '']''
               | ToolUseBlock name \<Rightarrow> ''[Tool: '' @ name @ '']''
               | UnknownBlock tag \<Rightarrow> ''[Unknown Block]'')
          content)"

text \<open>
  The fragment of one block as section 4.2 of the specification words it, kept apart
  from the source's \<^verbatim>\<open>switch\<close> so that the two can be compared.
\<close>

fun fragment_spec :: "ContentBlock \<Rightarrow> string" where
  "fragment_spec (TextBlock t) = t"
| "fragment_spec (ImageBlock s) = ''[Image: '' @ s @ '']''"
| "fragment_spec (ToolUseBlock n) = ''[Tool: '' @ n @ '']''"
| "fragment_spec (UnknownBlock _) = ''[Unknown Block]''"

subsection \<open>Model resolver\<close>

text \<open>
  The options the modelled methods read. The credentials only configure the client in
  the constructor and are left out.
\<close>

record ApiHandlerOptions =
  apiModelId :: "string option"
  awsRegion :: "string option"
  awsUseCrossRegionInference :: "bool option"
  useBedrockRuntime :: "bool option"

record ModelInfo =
  maxTokens :: "int option"
  supportsPromptCache :: bool

text \<open>
  The catalogue \<^verbatim>\<open>bedrockModels\<close> and the constant \<^verbatim>\<open>bedrockDefaultModelId\<close> are imported
  from \<^verbatim>\<open>shared/api\<close>, which is not part of the sources at hand; they are parameters of
  every function that reads them. The catalogue is an association list read with
  \<^const>\<open>map_of\<close>.
\<close>

record SharedApi =
  bedrockModels :: "(string \<times> ModelInfo) list"
  bedrockDefaultModelId :: string

text \<open>
  \<^verbatim>\<open>
  getModel(): { id: BedrockModelId; info: ModelInfo } {
      const modelId = this.options.apiModelId
      if (modelId && modelId in bedrockModels) {
          const id = modelId as BedrockModelId
          return { id, info: bedrockModels[id] }
      }
      return { id: bedrockDefaultModelId, info: bedrockModels[bedrockDefaultModelId] }
  }
  \<close>
  The \<open>info\<close> of the result is \<open>None\<close> where the lookup yields \<^verbatim>\<open>undefined\<close>, which can only
  happen for a default identifier that is not in the catalogue.
  The catalogue is a table of its own keys: the properties a JavaScript object inherits
  are not modelled.
\<close>

definition getModel :: "SharedApi \<Rightarrow> ApiHandlerOptions \<Rightarrow> string \<times> ModelInfo option" where
  "getModel api options =
     (let fallback = (bedrockDefaultModelId api,
                      map_of (bedrockModels api) (bedrockDefaultModelId api))
      in case apiModelId options of
           None \<Rightarrow> fallback
         | Some modelId \<Rightarrow>
             if modelId \<noteq> [] \<and> modelId \<in> fst ` set (bedrockModels api)
             then (modelId, map_of (bedrockModels api) modelId)
             else fallback)"

text \<open>
  \<^verbatim>\<open>
  private isNovaModel(): boolean {
      return this.getModel().id.toLowerCase().includes('nova')
  }
  \<close>
\<close>

definition isNovaModel :: "SharedApi \<Rightarrow> ApiHandlerOptions \<Rightarrow> bool" where
  "isNovaModel api options = str_includes (toLowerCase (fst (getModel api options))) ''nova''"

text \<open>
  \<^verbatim>\<open>
  static shouldUseRuntime(options: ApiHandlerOptions): boolean {
      const modelId = options.apiModelId?.toLowerCase() || bedrockDefaultModelId
      return modelId.includes('nova') || options.useBedrockRuntime === true
  }
  \<close>
  A static method: it reads its argument and the imported constant, and no handler.
\<close>

definition shouldUseRuntime :: "SharedApi \<Rightarrow> ApiHandlerOptions \<Rightarrow> bool" where
  "shouldUseRuntime api options =
     (let modelId = str_or (map_option toLowerCase (apiModelId options)) (bedrockDefaultModelId api)
      in str_includes modelId ''nova'' \<or> useBedrockRuntime options = Some True)"

text \<open>
  Section 4.1 of the specification: \<open>isNovaFamily\<close> holds iff the lower-cased identifier
  contains the substring of the Nova family.
\<close>

definition isNovaFamily :: "string \<Rightarrow> bool" where
  "isNovaFamily modelId = str_includes (toLowerCase modelId) ''nova''"

text \<open>The identifier the selection predicate looks at: the requested one, or the default.\<close>

definition requestedId :: "SharedApi \<Rightarrow> ApiHandlerOptions \<Rightarrow> string" where
  "requestedId api options =
     (case apiModelId options of
        None \<Rightarrow> bedrockDefaultModelId api
      | Some s \<Rightarrow> if s = [] then bedrockDefaultModelId api else s)"

subsection \<open>Request builder\<close>

datatype Role = User | Assistant

datatype MessageContent = StringContent string | BlockContent "ContentBlock list"

record MessageParam =
  role :: Role
  content :: MessageContent

fun role_string :: "Role \<Rightarrow> string" where
  "role_string User = ''user''"
| "role_string Assistant = ''assistant''"

text \<open>
  JSON documents. The request body is the text \<^verbatim>\<open>JSON.stringify(prompt)\<close>; the model keeps
  the document that text denotes, not its characters.
\<close>

datatype json =
    JString string
  | JNumber int
  | JBool bool
  | JArray "json list"
  | JObject "(string \<times> json) list"

text \<open>
  A JavaScript object under construction: its properties in insertion order, where the
  value \<open>None\<close> is a property that exists and holds \<^verbatim>\<open>undefined\<close>.
\<close>

type_synonym js_object = "(string \<times> json option) list"

text \<open>\<^verbatim>\<open>target[k] = v\<close>: an existing property keeps its place, a new one goes last.\<close>

fun set_property :: "js_object \<Rightarrow> string \<Rightarrow> json option \<Rightarrow> js_object" where
  "set_property [] k v = [(k, v)]"
| "set_property ((k', v') # ps) k v =
     (if k' = k then (k, v) # ps else (k', v') # set_property ps k v)"

text \<open>\<^verbatim>\<open>Object.assign(target, source)\<close> copies every own property of the source in order.\<close>

fun Object_assign :: "js_object \<Rightarrow> js_object \<Rightarrow> js_object" where
  "Object_assign target [] = target"
| "Object_assign target ((k, v) # source) = Object_assign (set_property target k v) source"

text \<open>
  \<^verbatim>\<open>JSON.stringify\<close> on an object leaves out every property whose value is
  \<^verbatim>\<open>undefined\<close> and keeps the others in order.
\<close>

fun defined_properties :: "js_object \<Rightarrow> (string \<times> json) list" where
  "defined_properties [] = []"
| "defined_properties ((k, None) # ps) = defined_properties ps"
| "defined_properties ((k, Some v) # ps) = (k, v) # defined_properties ps"

definition JSON_stringify :: "js_object \<Rightarrow> json" where
  "JSON_stringify obj = JObject (defined_properties obj)"

text \<open>Whether a JSON document is an object with a field of the given name.\<close>

fun has_field :: "json \<Rightarrow> string \<Rightarrow> bool" where
  "has_field (JObject ps) k = (map_of ps k \<noteq> None)"
| "has_field (JString _) k = False"
| "has_field (JNumber _) k = False"
| "has_field (JBool _) k = False"
| "has_field (JArray _) k = False"

text \<open>
  Lines 24 to 30 of \<^verbatim>\<open>createMessage\<close>: the model identifier sent to the backend, with the
  routing prefix of the region.
  \<^verbatim>\<open>
  let modelId = modelConfig.id
  if (this.options.awsUseCrossRegionInference) {
      const regionPrefix = (this.options.awsRegion || "").slice(0, 3)
      modelId = regionPrefix === "us-" ? `us.${modelId}` :
               regionPrefix === "eu-" ? `eu.${modelId}` : modelId
  }
  \<close>
\<close>

definition routedModelId :: "ApiHandlerOptions \<Rightarrow> string \<Rightarrow> string" where
  "routedModelId options modelId =
     (if awsUseCrossRegionInference options = Some True then
        (let regionPrefix = take 3 (str_or (awsRegion options) [])
         in if regionPrefix = ''us-'' then ''us.'' @ modelId
            else if regionPrefix = ''eu-'' then ''eu.'' @ modelId
            else modelId)
      else modelId)"

text \<open>
  Lines 33 to 59: the \<^verbatim>\<open>prompt\<close> object, after the Nova-specific \<^verbatim>\<open>Object.assign\<close>.
  \<^verbatim>\<open>
  const prompt = {
      anthropic_version: "bedrock-2024-02-20",
      messages: messages.map(msg => ({
          role: msg.role,
          content: typeof msg.content === 'string' ? msg.content : this.formatContent(msg.content)
      })),
      system: systemPrompt,
      max_tokens: modelConfig.info.maxTokens || 8192,
      temperature: 0
  }
  if (this.isNovaModel()) {
      Object.assign(prompt, {
          cache_control: modelConfig.info.supportsPromptCache ? {
              enable_prompt_caching: true,
              prompt_routing: { enable_routing: true, temperature: 0 }
          } : undefined,
          nova_config: { optimized_response: true, context_adaptation: true }
      })
  }
  \<close>
\<close>

definition basePrompt :: "ModelInfo \<Rightarrow> string \<Rightarrow> MessageParam list \<Rightarrow> js_object" where
  "basePrompt info systemPrompt messages =
     [(''anthropic_version'', Some (JString ''bedrock-2024-02-20'')),
      (''messages'',
         Some (JArray (map (\<lambda>msg. JObject
                 [(''role'', JString (role_string (role msg))),
                  (''content'', JString (case content msg of
                                           StringContent s \<Rightarrow> s
                                         | BlockContent blocks \<Rightarrow> formatContent blocks))])
               messages))),
      (''system'', Some (JString systemPrompt)),
      (''max_tokens'', Some (JNumber (num_or (maxTokens info) 8192))),
      (''temperature'', Some (JNumber 0))]"

definition novaExtension :: "ModelInfo \<Rightarrow> js_object" where
  "novaExtension info =
     [(''cache_control'',
         if supportsPromptCache info
         then Some (JObject
                 [(''enable_prompt_caching'', JBool True),
                  (''prompt_routing'',
                     JObject [(''enable_routing'', JBool True), (''temperature'', JNumber 0)])])
         else None),
      (''nova_config'',
         Some (JObject [(''optimized_response'', JBool True),
                        (''context_adaptation'', JBool True)]))]"

definition buildPrompt ::
  "SharedApi \<Rightarrow> ApiHandlerOptions \<Rightarrow> ModelInfo \<Rightarrow> string \<Rightarrow> MessageParam list \<Rightarrow> js_object" where
  "buildPrompt api options info systemPrompt messages =
     (let prompt = basePrompt info systemPrompt messages
      in if isNovaModel api options then Object_assign prompt (novaExtension info) else prompt)"

text \<open>Lines 61 to 66: the command handed to the client.\<close>

record InvokeCommand =
  modelId :: string
  contentType :: string
  accept :: string
  body :: json

definition buildCommand ::
  "SharedApi \<Rightarrow> ApiHandlerOptions \<Rightarrow> ModelInfo \<Rightarrow> string \<Rightarrow> MessageParam list \<Rightarrow> InvokeCommand" where
  "buildCommand api options info systemPrompt messages =
     \<lparr>modelId = routedModelId options (fst (getModel api options)),
      contentType = ''application/json'',
      accept = ''application/json'',
      body = JSON_stringify (buildPrompt api options info systemPrompt messages)\<rparr>"

subsection \<open>Stream decoder\<close>

text \<open>
  A frame is the JSON value of one chunk, read through the fields the decoder looks at
  (section 6 of the specification):
  \<^verbatim>\<open>{ type, message?: {usage?: {input_tokens, output_tokens}}, delta?: {text?},
     usage?: {output_tokens?} }\<close>.
  A field that is absent, \<^verbatim>\<open>null\<close> or \<^verbatim>\<open>undefined\<close> is \<open>None\<close>.
\<close>

record usage =
  input_tokens :: "int option"
  output_tokens :: "int option"

record message =
  usage :: "usage option"

record delta =
  "text" :: "string option"

record frame =
  type :: "string option"
  message :: "message option"
  delta :: "delta option"
  usage :: "usage option"

text \<open>
  An error object with its \<^verbatim>\<open>message\<close>. \<open>TypeError\<close> is the error of reading a property of
  \<^verbatim>\<open>undefined\<close>.
\<close>

datatype JsError = Error string | TypeError string

fun error_message :: "JsError \<Rightarrow> string" where
  "error_message (Error m) = m"
| "error_message (TypeError m) = m"

text \<open>
  One item of \<^verbatim>\<open>response.body\<close>: a chunk without \<^verbatim>\<open>chunk.bytes\<close>, a chunk whose bytes do
  not decode (\<^verbatim>\<open>JSON.parse\<close>, or reading \<^verbatim>\<open>data.type\<close> of \<^verbatim>\<open>null\<close>, throws the error), or a
  chunk whose bytes decode to a frame.
\<close>

datatype chunk = NoBytes | Malformed JsError | Data frame

text \<open>
  The asynchronous iterator \<^verbatim>\<open>response.body\<close>, finite: it is exhausted, or delivers a chunk
  and goes on, or throws.
\<close>

datatype body_stream = Done | Next chunk body_stream | Fail JsError

text \<open>The events the generator yields: \<^verbatim>\<open>{type: "text", text}\<close> and
  \<^verbatim>\<open>{type: "usage", inputTokens, outputTokens}\<close>.\<close>

datatype ApiStreamChunk = TextChunk string | UsageChunk int int

text \<open>The three local variables of the loop.\<close>

record DecoderState =
  hasStarted :: bool
  inputTokens :: int
  outputTokens :: int

definition initialState :: DecoderState where
  "initialState = \<lparr>hasStarted = False, inputTokens = 0, outputTokens = 0\<rparr>"

text \<open>
  The \<^verbatim>\<open>switch (data.type)\<close> of lines 82 to 125: the new state and the events yielded for
  one frame.
  \<^verbatim>\<open>
  case "message_start":
      if (data.message?.usage) {
          inputTokens = data.message.usage.input_tokens || 0
          outputTokens = data.message.usage.output_tokens || 0
          yield { type: "usage", inputTokens, outputTokens }
      }
      break
  case "content_block_delta":
      if (data.delta?.text) {
          if (!hasStarted) { hasStarted = true }
          yield { type: "text", text: data.delta.text }
      }
      break
  case "message_delta":
      if (data.usage?.output_tokens) {
          outputTokens = data.usage.output_tokens
          yield { type: "usage", inputTokens, outputTokens }
      }
      break
  case "message_stop":
      yield { type: "usage", inputTokens, outputTokens }
      break
  \<close>
\<close>

definition onFrame :: "DecoderState \<Rightarrow> frame \<Rightarrow> DecoderState \<times> ApiStreamChunk list" where
  "onFrame s data =
     (if type data = Some ''message_start'' then
        (case Option.bind (message data) message.usage of
           None \<Rightarrow> (s, [])
         | Some u \<Rightarrow>
             (let s' = s\<lparr>inputTokens := num_or (input_tokens u) 0,
                         outputTokens := num_or (output_tokens u) 0\<rparr>
              in (s', [UsageChunk (inputTokens s') (outputTokens s')])))
      else if type data = Some ''content_block_delta'' then
        (case Option.bind (delta data) text of
           None \<Rightarrow> (s, [])
         | Some t \<Rightarrow>
             if t \<noteq> [] then (s\<lparr>hasStarted := True\<rparr>, [TextChunk t]) else (s, []))
      else if type data = Some ''message_delta'' then
        (case Option.bind (frame.usage data) output_tokens of
           None \<Rightarrow> (s, [])
         | Some n \<Rightarrow>
             if n \<noteq> 0
             then (let s' = s\<lparr>outputTokens := n\<rparr>
                   in (s', [UsageChunk (inputTokens s') (outputTokens s')]))
             else (s, []))
      else if type data = Some ''message_stop'' then
        (s, [UsageChunk (inputTokens s) (outputTokens s)])
      else (s, []))"

text \<open>
  The loop \<^verbatim>\<open>for await (const chunk of response.body)\<close> of lines 78 to 127: the events
  yielded, and the error thrown inside the loop or the state at its end.
\<close>

fun forAwait :: "DecoderState \<Rightarrow> body_stream \<Rightarrow> ApiStreamChunk list \<times> (JsError + DecoderState)" where
  "forAwait s Done = ([], Inr s)"
| "forAwait s (Fail e) = ([], Inl e)"
| "forAwait s (Next NoBytes rest) = forAwait s rest"
| "forAwait s (Next (Malformed e) rest) = ([], Inl e)"
| "forAwait s (Next (Data data) rest) =
     (case onFrame s data of
        (s', events) \<Rightarrow>
          (case forAwait s' rest of (events', r) \<Rightarrow> (events @ events', r)))"

text \<open>
  What \<^verbatim>\<open>await this.client.send(command)\<close> gives: it throws, or it returns a response
  whose \<^verbatim>\<open>body\<close> may be missing.
\<close>

record Response =
  body :: "body_stream option"

type_synonym send_result = "JsError + Response"

text \<open>
  The \<^verbatim>\<open>try\<close> block, lines 68 to 131: the events yielded in it and the error it throws,
  if any.
  \<^verbatim>\<open>
  const response = await this.client.send(command)
  if (!response.body) { throw new Error('No response stream available') }
  let hasStarted = false; let inputTokens = 0; let outputTokens = 0
  for await (const chunk of response.body) { ... }
  if (!hasStarted) { throw new Error('No content was generated by the model') }
  \<close>
\<close>

definition NoResponseStream :: JsError where
  "NoResponseStream = Error ''No response stream available''"

definition NoContentGenerated :: JsError where
  "NoContentGenerated = Error ''No content was generated by the model''"

definition tryBlock :: "send_result \<Rightarrow> ApiStreamChunk list \<times> JsError option" where
  "tryBlock sent =
     (case sent of
        Inl e \<Rightarrow> ([], Some e)
      | Inr response \<Rightarrow>
          (case Response.body response of
             None \<Rightarrow> ([], Some NoResponseStream)
           | Some stream \<Rightarrow>
               (case forAwait initialState stream of
                  (events, Inl e) \<Rightarrow> (events, Some e)
                | (events, Inr s) \<Rightarrow>
                    if \<not> hasStarted s then (events, Some NoContentGenerated)
                    else (events, None))))"

text \<open>
  The \<^verbatim>\<open>try\<close> block under its \<^verbatim>\<open>catch\<close>, lines 68 to 145: all the events of the generator
  and the error it ends with (\<open>None\<close> when it completes).
  \<^verbatim>\<open>
  } catch (error: any) {
      console.error("Error in Bedrock Runtime stream:", error)
      yield { type: "text", text: `Error: ${error.message}` }
      yield { type: "usage", inputTokens: 0, outputTokens: 0 }
      throw error
  }
  \<close>
\<close>

definition tryCatch :: "send_result \<Rightarrow> ApiStreamChunk list \<times> JsError option" where
  "tryCatch sent =
     (case tryBlock sent of
        (events, None) \<Rightarrow> (events, None)
      | (events, Some error) \<Rightarrow>
          (events @ [TextChunk (''Error: '' @ error_message error), UsageChunk 0 0],
           Some error))"

text \<open>
  \<^verbatim>\<open>createMessage\<close>, for a caller that consumes the generator to its end. The client is the
  function \<open>send\<close>. Reading \<^verbatim>\<open>modelConfig.info.maxTokens\<close> (line 40, outside the \<^verbatim>\<open>try\<close>)
  throws when the catalogue has no entry for the model. The call of \<^verbatim>\<open>console.error\<close> yields
  no event and is left out; a caller that abandons the generator early sees a prefix of
  the events.
\<close>

definition createMessage ::
  "SharedApi \<Rightarrow> ApiHandlerOptions \<Rightarrow> (InvokeCommand \<Rightarrow> send_result) \<Rightarrow> string \<Rightarrow>
   MessageParam list \<Rightarrow> ApiStreamChunk list \<times> JsError option" where
  "createMessage api options send systemPrompt messages =
     (case snd (getModel api options) of
        None \<Rightarrow> ([], Some (TypeError ''Cannot read properties of undefined''))
      | Some info \<Rightarrow> tryCatch (send (buildCommand api options info systemPrompt messages)))"

text \<open>The generator from line 74 on, for a response that has the given body.\<close>

definition decodeStream :: "body_stream \<Rightarrow> ApiStreamChunk list \<times> JsError option" where
  "decodeStream stream = tryCatch (Inr \<lparr>body = Some stream\<rparr>)"

subsection \<open>Frames and streams the properties speak about\<close>

text \<open>The four recognised frames, with the payload field of their tag.\<close>

definition message_start_frame :: "usage option \<Rightarrow> frame" where
  "message_start_frame u =
     \<lparr>type = Some ''message_start'', message = Some \<lparr>message.usage = u\<rparr>, delta = None, usage = None\<rparr>"

definition content_block_delta_frame :: "string option \<Rightarrow> frame" where
  "content_block_delta_frame t =
     \<lparr>type = Some ''content_block_delta'', message = None, delta = Some \<lparr>text = t\<rparr>,
      usage = None\<rparr>"

definition message_delta_frame :: "int option \<Rightarrow> frame" where
  "message_delta_frame n =
     \<lparr>type = Some ''message_delta'', message = None, delta = None,
      usage = Some \<lparr>input_tokens = None, output_tokens = n\<rparr>\<rparr>"

definition message_stop_frame :: frame where
  "message_stop_frame =
     \<lparr>type = Some ''message_stop'', message = None, delta = None, usage = None\<rparr>"

text \<open>A stream that delivers the given frames, one per chunk, and is then exhausted.\<close>

fun frames :: "frame list \<Rightarrow> body_stream" where
  "frames [] = Done"
| "frames (d # ds) = Next (Data d) (frames ds)"

text \<open>The decoder states a frame sequence goes through, the starting state first.\<close>

fun decoderStates :: "DecoderState \<Rightarrow> frame list \<Rightarrow> DecoderState list" where
  "decoderStates s [] = [s]"
| "decoderStates s (d # ds) = s # decoderStates (fst (onFrame s d)) ds"

text \<open>A \<^verbatim>\<open>content_block_delta\<close> frame that carries text: the text is there and not empty.\<close>

definition carriesText :: "frame \<Rightarrow> bool" where
  "carriesText d =
     (type d = Some ''content_block_delta'' \<and>
      (case Option.bind (delta d) text of None \<Rightarrow> False | Some t \<Rightarrow> t \<noteq> []))"

text \<open>
  The token counts a frame reports to the decoder, as a list with at most one element:
  a \<^verbatim>\<open>message_start\<close> with a usage record reports both counts (a missing field counts as
  0), a \<^verbatim>\<open>message_delta\<close> reports its output count when it is not 0.
\<close>

definition inputReport :: "frame \<Rightarrow> int list" where
  "inputReport d =
     (if type d = Some ''message_start'' then
        (case Option.bind (message d) message.usage of
           None \<Rightarrow> []
         | Some u \<Rightarrow> [num_or (input_tokens u) 0])
      else [])"

definition outputReport :: "frame \<Rightarrow> int list" where
  "outputReport d =
     (if type d = Some ''message_start'' then
        (case Option.bind (message d) message.usage of
           None \<Rightarrow> []
         | Some u \<Rightarrow> [num_or (output_tokens u) 0])
      else if type d = Some ''message_delta'' then
        (case Option.bind (frame.usage d) output_tokens of
           None \<Rightarrow> []
         | Some n \<Rightarrow> if n = 0 then [] else [n])
      else [])"

subsection \<open>Sample data for the examples\<close>

text \<open>
  A catalogue with two entries, two option values and a client whose response has no
  body. They only serve to evaluate the functions on concrete inputs.
\<close>

definition sampleApi :: SharedApi where
  "sampleApi =
     \<lparr>bedrockModels =
        [(''anthropic.claude-3-5-sonnet-20241022-v2:0'',
            \<lparr>maxTokens = Some 8192, supportsPromptCache = True\<rparr>),
         (''amazon.nova-lite-v1:0'',
            \<lparr>maxTokens = Some 5000, supportsPromptCache = False\<rparr>)],
      bedrockDefaultModelId = ''anthropic.claude-3-5-sonnet-20241022-v2:0''\<rparr>"

definition novaOptions :: ApiHandlerOptions where
  "novaOptions =
     \<lparr>apiModelId = Some ''amazon.nova-lite-v1:0'', awsRegion = Some ''us-east-1'',
      awsUseCrossRegionInference = None, useBedrockRuntime = None\<rparr>"

definition defaultOptions :: ApiHandlerOptions where
  "defaultOptions =
     \<lparr>apiModelId = None, awsRegion = None, awsUseCrossRegionInference = None,
      useBedrockRuntime = None\<rparr>"

definition noBodyClient :: "InvokeCommand \<Rightarrow> send_result" where
  "noBodyClient command = Inr \<lparr>body = None\<rparr>"

section \<open>Properties\<close>

subsection \<open>Auxiliary facts\<close>

lemmas frame_defs =
  message_start_frame_def content_block_delta_frame_def message_delta_frame_def
  message_stop_frame_def

lemmas decode_defs =
  decodeStream_def tryCatch_def tryBlock_def onFrame_def initialState_def
  NoContentGenerated_def NoResponseStream_def num_or_def

lemmas sample_defs = sampleApi_def novaOptions_def defaultOptions_def

lemmas string_defs = toLowerCase_def toLowerChar_def

lemma toLowerCase_Nil_iff: "toLowerCase s = [] \<longleftrightarrow> s = []"
  by (simp add: toLowerCase_def)

lemma formatContent_spec: "formatContent bs = join '' '' (map fragment_spec bs)"
proof -
  have "(\<lambda>block. case block of
                 TextBlock t \<Rightarrow> t
               | ImageBlock src \<Rightarrow> ''[Image: '' @ src @ '']''
               | ToolUseBlock n \<Rightarrow> ''[Tool: '' @ n @ '']''
               | UnknownBlock tag \<Rightarrow> ''[Unknown Block]'') = fragment_spec"
    by (rule ext) (simp split: ContentBlock.split)
  then show ?thesis by (simp add: formatContent_def)
qed

lemma join_Cons: "xs \<noteq> [] \<Longrightarrow> join sep (x # xs) = x @ sep @ join sep xs"
  by (cases xs) simp_all

text \<open>
  For a Nova model without prompt-cache support the \<^verbatim>\<open>prompt\<close> object does have the
  property \<^verbatim>\<open>cache_control\<close>, holding \<^verbatim>\<open>undefined\<close>; it is \<^verbatim>\<open>JSON.stringify\<close> that leaves
  it out of the body.
\<close>

lemma prompt_cache_control_undefined:
  "isNovaModel api options \<Longrightarrow> \<not> supportsPromptCache info \<Longrightarrow>
   map_of (buildPrompt api options info systemPrompt messages) ''cache_control'' = Some None"
  by (simp add: buildPrompt_def basePrompt_def novaExtension_def)

lemma createMessage_decodeStream:
  assumes "snd (getModel api options) = Some info"
      and "send (buildCommand api options info systemPrompt messages) = Inr \<lparr>body = Some stream\<rparr>"
  shows "createMessage api options send systemPrompt messages = decodeStream stream"
  using assms by (simp add: createMessage_def decodeStream_def)

lemma decoderStates_nonempty [simp]: "decoderStates s fs \<noteq> []"
  by (cases fs) simp_all

lemma hd_decoderStates [simp]: "hd (decoderStates s fs) = s"
  by (cases fs) simp_all

text \<open>A stream of frames never throws inside the loop: the loop ends in the last state.\<close>

lemma forAwait_frames_state: "snd (forAwait s (frames fs)) = Inr (last (decoderStates s fs))"
proof (induction fs arbitrary: s)
  case Nil
  then show ?case by simp
next
  case (Cons d ds)
  obtain s' evs where step: "onFrame s d = (s', evs)"
    by (cases "onFrame s d")
  obtain evs' r where rest: "forAwait s' (frames ds) = (evs', r)"
    by (cases "forAwait s' (frames ds)")
  from Cons.IH [of s'] rest have "r = Inr (last (decoderStates s' ds))" by simp
  with step rest show ?case by simp
qed

lemma hasStarted_onFrame: "hasStarted (fst (onFrame s d)) = (hasStarted s \<or> carriesText d)"
  by (auto simp: onFrame_def carriesText_def Let_def split: option.splits)

lemma hasStarted_last:
  "hasStarted (last (decoderStates s fs)) = (hasStarted s \<or> (\<exists>d\<in>set fs. carriesText d))"
  by (induction fs arbitrary: s) (auto simp: hasStarted_onFrame)

lemma text_onFrame: "TextChunk t \<in> set (snd (onFrame s d)) \<Longrightarrow> carriesText d"
  by (auto simp: onFrame_def carriesText_def Let_def split: option.splits if_splits)

lemma text_forAwait:
  "TextChunk t \<in> set (fst (forAwait s (frames fs))) \<Longrightarrow> \<exists>d\<in>set fs. carriesText d"
proof (induction fs arbitrary: s)
  case Nil
  then show ?case by simp
next
  case (Cons d ds)
  obtain s' evs where step: "onFrame s d = (s', evs)"
    by (cases "onFrame s d")
  obtain evs' r where rest: "forAwait s' (frames ds) = (evs', r)"
    by (cases "forAwait s' (frames ds)")
  from Cons.prems step rest have "TextChunk t \<in> set evs \<or> TextChunk t \<in> set evs'" by simp
  then show ?case
  proof
    assume "TextChunk t \<in> set evs"
    with step have "carriesText d" using text_onFrame [of t s d] by simp
    then show ?thesis by simp
  next
    assume "TextChunk t \<in> set evs'"
    with rest Cons.IH [of s'] show ?thesis by simp
  qed
qed

text \<open>
  A stream of frames without text ends in the error of line 130, which the \<^verbatim>\<open>catch\<close>
  block reports as a text event and a zero usage event before it throws it again.
\<close>

lemma decodeStream_frames_silent:
  assumes "\<forall>d\<in>set fs. \<not> carriesText d"
  shows "decodeStream (frames fs) =
           (fst (forAwait initialState (frames fs)) @
              [TextChunk ''Error: No content was generated by the model'', UsageChunk 0 0],
            Some NoContentGenerated)"
proof -
  obtain events r where run: "forAwait initialState (frames fs) = (events, r)"
    by (cases "forAwait initialState (frames fs)")
  with forAwait_frames_state [of initialState fs]
  have r: "r = Inr (last (decoderStates initialState fs))" by simp
  from assms have "\<not> hasStarted (last (decoderStates initialState fs))"
    by (simp add: hasStarted_last initialState_def)
  with run r show ?thesis
    by (simp add: decodeStream_def tryCatch_def tryBlock_def NoContentGenerated_def)
qed

text \<open>One frame moves each counter to the value it reports, if it reports one.\<close>

lemma outputTokens_onFrame:
  "outputTokens (fst (onFrame s d)) = last (outputTokens s # outputReport d)"
  by (simp add: onFrame_def outputReport_def Let_def split: option.splits)

lemma inputTokens_onFrame:
  "inputTokens (fst (onFrame s d)) = last (inputTokens s # inputReport d)"
  by (simp add: onFrame_def inputReport_def Let_def split: option.splits)

lemma outputReport_cases: "outputReport d = [] \<or> (\<exists>r. outputReport d = [r])"
  by (simp add: outputReport_def split: option.splits)

lemma inputReport_cases: "inputReport d = [] \<or> (\<exists>r. inputReport d = [r])"
  by (simp add: inputReport_def split: option.splits)

lemma last_Cons_append: "last (a # xs @ ys) = last (last (a # xs) # ys)"
  by (cases ys) simp_all

lemma sorted_Cons_hd: "xs \<noteq> [] \<Longrightarrow> sorted ((a::int) # xs) = (a \<le> hd xs \<and> sorted xs)"
  by (cases xs) auto

lemma outputTokens_last:
  "outputTokens (last (decoderStates s fs)) = last (outputTokens s # concat (map outputReport fs))"
proof (induction fs arbitrary: s)
  case Nil
  then show ?case by simp
next
  case (Cons d ds)
  have "outputTokens (last (decoderStates s (d # ds)))
          = last (outputTokens (fst (onFrame s d)) # concat (map outputReport ds))"
    using Cons.IH [of "fst (onFrame s d)"] by simp
  also have "\<dots> = last (outputTokens s # outputReport d @ concat (map outputReport ds))"
    by (simp only: outputTokens_onFrame last_Cons_append [symmetric])
  finally show ?case by simp
qed

lemma inputTokens_last:
  "inputTokens (last (decoderStates s fs)) = last (inputTokens s # concat (map inputReport fs))"
proof (induction fs arbitrary: s)
  case Nil
  then show ?case by simp
next
  case (Cons d ds)
  have "inputTokens (last (decoderStates s (d # ds)))
          = last (inputTokens (fst (onFrame s d)) # concat (map inputReport ds))"
    using Cons.IH [of "fst (onFrame s d)"] by simp
  also have "\<dots> = last (inputTokens s # inputReport d @ concat (map inputReport ds))"
    by (simp only: inputTokens_onFrame last_Cons_append [symmetric])
  finally show ?case by simp
qed

text \<open>
  A counter \<open>f\<close> that every frame moves to its report \<open>rep\<close> is non-decreasing along the
  states exactly when the reports, after the starting value, are non-decreasing.
\<close>

lemma sorted_trace:
  assumes step: "\<And>s d. f (fst (onFrame s d)) = last (f s # rep d)"
      and one: "\<And>d. rep d = [] \<or> (\<exists>r. rep d = [r])"
  shows "sorted (map f (decoderStates s fs)) = sorted ((f s :: int) # concat (map rep fs))"
proof (induction fs arbitrary: s)
  case Nil
  then show ?case by simp
next
  case (Cons d ds)
  let ?s' = "fst (onFrame s d)"
  have ne: "map f (decoderStates ?s' ds) \<noteq> []" by simp
  have hd: "hd (map f (decoderStates ?s' ds)) = f ?s'" by (simp add: hd_map)
  have "sorted (map f (decoderStates s (d # ds)))
          = sorted (f s # map f (decoderStates ?s' ds))" by simp
  also have "\<dots> = (f s \<le> f ?s' \<and> sorted (map f (decoderStates ?s' ds)))"
    unfolding hd [symmetric] by (rule sorted_Cons_hd [OF ne])
  also have "\<dots> = (f s \<le> f ?s' \<and> sorted (f ?s' # concat (map rep ds)))"
    by (simp only: Cons.IH)
  also have "\<dots> = sorted (f s # rep d @ concat (map rep ds))"
  proof -
    from one [of d] show ?thesis
    proof
      assume "rep d = []"
      then show ?thesis using step [of s d] by auto
    next
      assume "\<exists>r. rep d = [r]"
      then obtain r where "rep d = [r]" ..
      then show ?thesis using step [of s d] by fastforce
    qed
  qed
  finally show ?case by simp
qed

text \<open>The state after the first \<open>k\<close> frames is the state the prefix of length \<open>k\<close> ends in.\<close>

lemma decoderStates_nth:
  "k \<le> length fs \<Longrightarrow> decoderStates s fs ! k = last (decoderStates s (take k fs))"
proof (induction fs arbitrary: s k)
  case Nil
  then show ?case by simp
next
  case (Cons d ds)
  show ?case
  proof (cases k)
    case 0
    then show ?thesis by simp
  next
    case (Suc j)
    with Cons.prems have "j \<le> length ds" by simp
    with Cons.IH [of j "fst (onFrame s d)"] Suc show ?thesis by simp
  qed
qed

subsection \<open>The stream decoder on the reference streams\<close>

text \<open>
  Claim C1. For the frame sequence \<^verbatim>\<open>message_start\<close> with usage (10, 0),
  \<^verbatim>\<open>content_block_delta\<close> with text "Hel", \<^verbatim>\<open>content_block_delta\<close> with text "lo",
  \<^verbatim>\<open>message_delta\<close> with output count 2 and \<^verbatim>\<open>message_stop\<close>, the generator yields
  exactly the five events Usage(10,0), Text("Hel"), Text("lo"), Usage(10,2), Usage(10,2)
  in this order, and completes without an error.
\<close>

theorem decode_hello_stream:
  "decodeStream
     (frames [message_start_frame (Some \<lparr>input_tokens = Some 10, output_tokens = Some 0\<rparr>),
              content_block_delta_frame (Some ''Hel''),
              content_block_delta_frame (Some ''lo''),
              message_delta_frame (Some 2),
              message_stop_frame])
   = ([UsageChunk 10 0, TextChunk ''Hel'', TextChunk ''lo'', UsageChunk 10 2, UsageChunk 10 2],
      None)"
  by (simp add: frame_defs decode_defs)

text \<open>
  Claim C2, as the code has it. For every frame sequence without a
  \<^verbatim>\<open>content_block_delta\<close> frame that carries non-empty text, the generator ends with the
  error "No content was generated by the model" once the stream is exhausted. Before
  the error reaches the caller the generator has yielded the events of the frames, none
  of which is a text event, and then the two events of the \<^verbatim>\<open>catch\<close> block: a text event
  with the error message and a usage event with both counts 0. For \<^verbatim>\<open>message_start\<close>
  with a usage record followed by \<^verbatim>\<open>message_stop\<close> the events are the usage event of
  \<^verbatim>\<open>message_start\<close>, the usage event of \<^verbatim>\<open>message_stop\<close>, the error text and the zero
  usage event.
\<close>

theorem no_text_ends_in_NoContentGenerated:
  "((\<forall>d\<in>set fs. \<not> carriesText d) \<longrightarrow>
      decodeStream (frames fs) =
        (fst (forAwait initialState (frames fs)) @
           [TextChunk ''Error: No content was generated by the model'', UsageChunk 0 0],
         Some NoContentGenerated) \<and>
      (\<forall>t. TextChunk t \<notin> set (fst (forAwait initialState (frames fs))))) \<and>
   decodeStream (frames [message_start_frame (Some u), message_stop_frame]) =
     ([UsageChunk (num_or (input_tokens u) 0) (num_or (output_tokens u) 0),
       UsageChunk (num_or (input_tokens u) 0) (num_or (output_tokens u) 0),
       TextChunk ''Error: No content was generated by the model'', UsageChunk 0 0],
      Some NoContentGenerated)"
proof (intro conjI impI allI)
  assume silent: "\<forall>d\<in>set fs. \<not> carriesText d"
  then show "decodeStream (frames fs) =
        (fst (forAwait initialState (frames fs)) @
           [TextChunk ''Error: No content was generated by the model'', UsageChunk 0 0],
         Some NoContentGenerated)"
    by (rule decodeStream_frames_silent)
  fix t
  from silent show "TextChunk t \<notin> set (fst (forAwait initialState (frames fs)))"
    using text_forAwait [of t initialState fs] by blast
next
  show "decodeStream (frames [message_start_frame (Some u), message_stop_frame]) =
     ([UsageChunk (num_or (input_tokens u) 0) (num_or (output_tokens u) 0),
       UsageChunk (num_or (input_tokens u) 0) (num_or (output_tokens u) 0),
       TextChunk ''Error: No content was generated by the model'', UsageChunk 0 0],
      Some NoContentGenerated)"
    by (simp add: frame_defs decodeStream_def tryCatch_def tryBlock_def onFrame_def
        initialState_def NoContentGenerated_def)
qed

theorem no_text_ends_in_NoContentGenerated_witness:
  "list_all (\<lambda>d. \<not> carriesText d)
     [message_start_frame (Some \<lparr>input_tokens = Some 10, output_tokens = Some 0\<rparr>),
      content_block_delta_frame None,
      message_stop_frame] \<and>
   decodeStream
     (frames [message_start_frame (Some \<lparr>input_tokens = Some 10, output_tokens = Some 0\<rparr>),
              content_block_delta_frame None,
              message_stop_frame])
   = ([UsageChunk 10 0, UsageChunk 10 0,
       TextChunk ''Error: No content was generated by the model'', UsageChunk 0 0],
      Some NoContentGenerated)"
  using no_text_ends_in_NoContentGenerated
    [of "[message_start_frame (Some \<lparr>input_tokens = Some 10, output_tokens = Some 0\<rparr>),
          content_block_delta_frame None,
          message_stop_frame]"]
  by (simp add: frame_defs carriesText_def onFrame_def initialState_def num_or_def)

text \<open>
  The claim as it was made has the error raised before any text event: on
  \<^verbatim>\<open>message_start\<close> and \<^verbatim>\<open>message_stop\<close> alone the generator yields a text event, the
  error text, and only then ends with the error.
\<close>

theorem error_text_precedes_NoContentGenerated:
  "TextChunk ''Error: No content was generated by the model''
     \<in> set (fst (decodeStream (frames
          [message_start_frame (Some \<lparr>input_tokens = Some 10, output_tokens = Some 0\<rparr>),
           message_stop_frame]))) \<and>
   snd (decodeStream (frames
          [message_start_frame (Some \<lparr>input_tokens = Some 10, output_tokens = Some 0\<rparr>),
           message_stop_frame])) = Some NoContentGenerated"
  by (simp add: frame_defs decode_defs)

subsection \<open>A response without a stream\<close>

text \<open>
  Claim C3, as the code has it. When the client returns a response without a body,
  \<^verbatim>\<open>createMessage\<close> ends with the error "No response stream available"; the error is
  thrown inside the \<^verbatim>\<open>try\<close> block, so the generator first yields the two events of the
  \<^verbatim>\<open>catch\<close> block, the error text and a usage event with both counts 0, and no other
  event.
\<close>

theorem no_body_error_events:
  assumes "snd (getModel api options) = Some info"
      and "send (buildCommand api options info systemPrompt messages) = Inr \<lparr>body = None\<rparr>"
  shows "createMessage api options send systemPrompt messages =
           ([TextChunk ''Error: No response stream available'', UsageChunk 0 0],
            Some NoResponseStream)"
  using assms by (simp add: createMessage_def tryCatch_def tryBlock_def NoResponseStream_def)

theorem no_body_error_events_witness:
  "snd (getModel sampleApi novaOptions)
     = Some \<lparr>maxTokens = Some 5000, supportsPromptCache = False\<rparr> \<and>
   noBodyClient
     (buildCommand sampleApi novaOptions \<lparr>maxTokens = Some 5000, supportsPromptCache = False\<rparr>
        ''Be brief.'' [\<lparr>role = User, content = StringContent ''Hello''\<rparr>])
     = Inr \<lparr>body = None\<rparr> \<and>
   createMessage sampleApi novaOptions noBodyClient ''Be brief.''
     [\<lparr>role = User, content = StringContent ''Hello''\<rparr>]
     = ([TextChunk ''Error: No response stream available'', UsageChunk 0 0],
        Some NoResponseStream)"
  using no_body_error_events
    [of sampleApi novaOptions "\<lparr>maxTokens = Some 5000, supportsPromptCache = False\<rparr>"
        noBodyClient "''Be brief.''" "[\<lparr>role = User, content = StringContent ''Hello''\<rparr>]"]
  by (simp add: getModel_def sample_defs noBodyClient_def)

text \<open>
  The claim as it was made has no event at all before the error: the generator yields
  two.
\<close>

theorem no_body_yields_events:
  "fst (createMessage sampleApi novaOptions noBodyClient ''Be brief.''
          [\<lparr>role = User, content = StringContent ''Hello''\<rparr>]) \<noteq> [] \<and>
   snd (createMessage sampleApi novaOptions noBodyClient ''Be brief.''
          [\<lparr>role = User, content = StringContent ''Hello''\<rparr>]) = Some NoResponseStream"
  by (simp add: createMessage_def getModel_def sample_defs noBodyClient_def tryCatch_def
      tryBlock_def)

subsection \<open>Errors raised while the stream is read\<close>

text \<open>
  Claim C4. When the loop over the response stream throws an error \<open>e\<close> (the iterator
  fails, or the bytes of a chunk do not decode) after the events \<open>events\<close>, the generator
  yields after them exactly one text event with the description \<^verbatim>\<open>Error: \<close> followed by
  the message of \<open>e\<close>, then exactly one usage event with both counts 0 whatever the
  counters were, and then ends with the same error \<open>e\<close>.
\<close>

theorem transport_failure_events:
  "forAwait initialState stream = (events, Inl e) \<Longrightarrow>
   decodeStream stream =
     (events @ [TextChunk (''Error: '' @ error_message e), UsageChunk 0 0], Some e)"
  by (simp add: decodeStream_def tryCatch_def tryBlock_def)

theorem transport_failure_events_witness:
  "forAwait initialState
     (Next (Data (message_start_frame (Some \<lparr>input_tokens = Some 10, output_tokens = Some 5\<rparr>)))
       (Next (Data (content_block_delta_frame (Some ''Hi'')))
         (Fail (Error ''socket hang up''))))
     = ([UsageChunk 10 5, TextChunk ''Hi''], Inl (Error ''socket hang up'')) \<and>
   decodeStream
     (Next (Data (message_start_frame (Some \<lparr>input_tokens = Some 10, output_tokens = Some 5\<rparr>)))
       (Next (Data (content_block_delta_frame (Some ''Hi'')))
         (Fail (Error ''socket hang up''))))
     = ([UsageChunk 10 5, TextChunk ''Hi'', TextChunk ''Error: socket hang up'', UsageChunk 0 0],
        Some (Error ''socket hang up''))"
proof -
  have run: "forAwait initialState
     (Next (Data (message_start_frame (Some \<lparr>input_tokens = Some 10, output_tokens = Some 5\<rparr>)))
       (Next (Data (content_block_delta_frame (Some ''Hi'')))
         (Fail (Error ''socket hang up''))))
     = ([UsageChunk 10 5, TextChunk ''Hi''], Inl (Error ''socket hang up''))"
    by (simp add: frame_defs onFrame_def initialState_def num_or_def)
  from transport_failure_events [OF run] run show ?thesis by simp
qed

subsection \<open>The token counters\<close>

text \<open>
  Claim C5, as the code has it. Within one stream consumption, after every frame each
  counter equals the most recent value the decoder took from the backend, 0 before any:
  a \<^verbatim>\<open>message_start\<close> with a usage record sets both counters (an absent or zero field
  gives 0), a \<^verbatim>\<open>message_delta\<close> with a non-zero output count overwrites
  \<open>outputTokens\<close>; the counters are never a running sum. The decoder copies what is
  reported and enforces no order: a counter is non-decreasing over the states exactly
  when the values reported for it, after the initial 0, are non-decreasing.
\<close>

theorem counters_follow_reports:
  "(k \<le> length fs \<longrightarrow>
      outputTokens (decoderStates initialState fs ! k)
        = last (0 # concat (map outputReport (take k fs))) \<and>
      inputTokens (decoderStates initialState fs ! k)
        = last (0 # concat (map inputReport (take k fs)))) \<and>
   sorted (map outputTokens (decoderStates initialState fs))
     = sorted (0 # concat (map outputReport fs)) \<and>
   sorted (map inputTokens (decoderStates initialState fs))
     = sorted (0 # concat (map inputReport fs))"
proof (intro conjI impI)
  assume k: "k \<le> length fs"
  show "outputTokens (decoderStates initialState fs ! k)
          = last (0 # concat (map outputReport (take k fs)))"
    using outputTokens_last [of initialState "take k fs"]
    by (simp add: decoderStates_nth [OF k] initialState_def)
  show "inputTokens (decoderStates initialState fs ! k)
          = last (0 # concat (map inputReport (take k fs)))"
    using inputTokens_last [of initialState "take k fs"]
    by (simp add: decoderStates_nth [OF k] initialState_def)
next
  show "sorted (map outputTokens (decoderStates initialState fs))
          = sorted (0 # concat (map outputReport fs))"
    using sorted_trace [of outputTokens outputReport initialState fs,
        OF outputTokens_onFrame outputReport_cases]
    by (simp add: initialState_def)
next
  show "sorted (map inputTokens (decoderStates initialState fs))
          = sorted (0 # concat (map inputReport fs))"
    using sorted_trace [of inputTokens inputReport initialState fs,
        OF inputTokens_onFrame inputReport_cases]
    by (simp add: initialState_def)
qed

theorem counters_follow_reports_witness:
  "(3::nat) \<le> length
       [message_start_frame (Some \<lparr>input_tokens = Some 10, output_tokens = Some 1\<rparr>),
        message_delta_frame (Some 5),
        message_delta_frame (Some 7)] \<and>
   outputTokens (decoderStates initialState
       [message_start_frame (Some \<lparr>input_tokens = Some 10, output_tokens = Some 1\<rparr>),
        message_delta_frame (Some 5),
        message_delta_frame (Some 7)] ! 3) = 7 \<and>
   inputTokens (decoderStates initialState
       [message_start_frame (Some \<lparr>input_tokens = Some 10, output_tokens = Some 1\<rparr>),
        message_delta_frame (Some 5),
        message_delta_frame (Some 7)] ! 3) = 10 \<and>
   sorted (map outputTokens (decoderStates initialState
       [message_start_frame (Some \<lparr>input_tokens = Some 10, output_tokens = Some 1\<rparr>),
        message_delta_frame (Some 5),
        message_delta_frame (Some 7)]))"
  using counters_follow_reports
    [of 3 "[message_start_frame (Some \<lparr>input_tokens = Some 10, output_tokens = Some 1\<rparr>),
            message_delta_frame (Some 5),
            message_delta_frame (Some 7)]"]
  by (simp add: frame_defs outputReport_def inputReport_def num_or_def)

text \<open>
  The claim as it was made has the counters non-decreasing over every frame sequence:
  a \<^verbatim>\<open>message_delta\<close> that reports 2 after a \<^verbatim>\<open>message_start\<close> that reported 5 takes
  \<open>outputTokens\<close> from 5 down to 2.
\<close>

theorem outputTokens_can_decrease:
  "\<not> sorted (map outputTokens (decoderStates initialState
        [message_start_frame (Some \<lparr>input_tokens = Some 10, output_tokens = Some 5\<rparr>),
         content_block_delta_frame (Some ''Hi''),
         message_delta_frame (Some 2)]))"
  by (simp add: frame_defs onFrame_def initialState_def num_or_def)

text \<open>
  Claim C6, as the code has it. For every \<^verbatim>\<open>message_delta\<close> frame whose usage field
  carries an output-token count other than 0, the decoder overwrites \<open>outputTokens\<close> with
  that count and yields a usage event with the current \<open>inputTokens\<close> and the new
  \<open>outputTokens\<close>; if the frame carries no output-token count, or the count 0, the state
  does not change and no event is yielded.
\<close>

theorem message_delta_step:
  "type data = Some ''message_delta'' \<Longrightarrow>
   (Option.bind (frame.usage data) output_tokens = Some n \<and> n \<noteq> 0 \<longrightarrow>
      onFrame s data = (s\<lparr>outputTokens := n\<rparr>, [UsageChunk (inputTokens s) n])) \<and>
   (Option.bind (frame.usage data) output_tokens = Some 0 \<or>
    Option.bind (frame.usage data) output_tokens = None \<longrightarrow>
      onFrame s data = (s, []))"
  by (auto simp: onFrame_def)

theorem message_delta_step_witness:
  "type (message_delta_frame (Some 7)) = Some ''message_delta'' \<and>
   Option.bind (frame.usage (message_delta_frame (Some 7))) output_tokens = Some 7 \<and>
   (7::int) \<noteq> 0 \<and>
   onFrame \<lparr>hasStarted = True, inputTokens = 10, outputTokens = 5\<rparr> (message_delta_frame (Some 7))
     = (\<lparr>hasStarted = True, inputTokens = 10, outputTokens = 7\<rparr>, [UsageChunk 10 7]) \<and>
   type (message_delta_frame None) = Some ''message_delta'' \<and>
   Option.bind (frame.usage (message_delta_frame None)) output_tokens = None \<and>
   onFrame \<lparr>hasStarted = True, inputTokens = 10, outputTokens = 5\<rparr> (message_delta_frame None)
     = (\<lparr>hasStarted = True, inputTokens = 10, outputTokens = 5\<rparr>, [])"
  using message_delta_step
    [of "message_delta_frame (Some 7)" 7 "\<lparr>hasStarted = True, inputTokens = 10, outputTokens = 5\<rparr>"]
    message_delta_step
    [of "message_delta_frame None" 0 "\<lparr>hasStarted = True, inputTokens = 10, outputTokens = 5\<rparr>"]
  by (simp add: frame_defs)

text \<open>
  The claim as it was made includes the count 0: a \<^verbatim>\<open>message_delta\<close> that reports 0
  leaves \<open>outputTokens\<close> at 5 and yields nothing, where the claim has \<open>outputTokens\<close>
  overwritten with 0 and the event Usage(10,0) yielded.
\<close>

theorem message_delta_zero_ignored:
  "onFrame \<lparr>hasStarted = True, inputTokens = 10, outputTokens = 5\<rparr> (message_delta_frame (Some 0))
     = (\<lparr>hasStarted = True, inputTokens = 10, outputTokens = 5\<rparr>, []) \<and>
   onFrame \<lparr>hasStarted = True, inputTokens = 10, outputTokens = 5\<rparr> (message_delta_frame (Some 0))
     \<noteq> (\<lparr>hasStarted = True, inputTokens = 10, outputTokens = 0\<rparr>, [UsageChunk 10 0])"
  by (simp add: onFrame_def frame_defs)

subsection \<open>The request of a Nova model\<close>

text \<open>
  Claim C7. For a Nova-family model the body of the request always has the field
  \<^verbatim>\<open>nova_config\<close>, and it has the field \<^verbatim>\<open>cache_control\<close> exactly when the capability
  record of the model declares prompt-cache support: without that support the field is
  absent from the body. For a model outside the Nova family the body has neither field.
\<close>

theorem nova_extension_fields:
  "(isNovaModel api options \<longrightarrow>
      has_field (InvokeCommand.body (buildCommand api options info systemPrompt messages))
        ''nova_config'' \<and>
      (has_field (InvokeCommand.body (buildCommand api options info systemPrompt messages))
         ''cache_control'' \<longleftrightarrow> supportsPromptCache info)) \<and>
   (\<not> isNovaModel api options \<longrightarrow>
      \<not> has_field (InvokeCommand.body (buildCommand api options info systemPrompt messages))
          ''nova_config'' \<and>
      \<not> has_field (InvokeCommand.body (buildCommand api options info systemPrompt messages))
          ''cache_control'')"
  by (simp add: buildCommand_def buildPrompt_def JSON_stringify_def basePrompt_def
      novaExtension_def)

theorem nova_extension_fields_witness:
  "isNovaModel sampleApi novaOptions \<and>
   snd (getModel sampleApi novaOptions)
     = Some \<lparr>maxTokens = Some 5000, supportsPromptCache = False\<rparr> \<and>
   has_field (InvokeCommand.body (buildCommand sampleApi novaOptions
       \<lparr>maxTokens = Some 5000, supportsPromptCache = False\<rparr> ''Be brief.'' []))
     ''nova_config'' \<and>
   \<not> has_field (InvokeCommand.body (buildCommand sampleApi novaOptions
       \<lparr>maxTokens = Some 5000, supportsPromptCache = False\<rparr> ''Be brief.'' []))
     ''cache_control'' \<and>
   \<not> isNovaModel sampleApi defaultOptions \<and>
   \<not> has_field (InvokeCommand.body (buildCommand sampleApi defaultOptions
       \<lparr>maxTokens = Some 8192, supportsPromptCache = True\<rparr> ''Be brief.'' []))
     ''nova_config'' \<and>
   \<not> has_field (InvokeCommand.body (buildCommand sampleApi defaultOptions
       \<lparr>maxTokens = Some 8192, supportsPromptCache = True\<rparr> ''Be brief.'' []))
     ''cache_control''"
proof -
  have nova: "isNovaModel sampleApi novaOptions"
    by (simp add: isNovaModel_def getModel_def sample_defs string_defs)
  have other: "\<not> isNovaModel sampleApi defaultOptions"
    by (simp add: isNovaModel_def getModel_def sample_defs string_defs)
  have info: "snd (getModel sampleApi novaOptions)
     = Some \<lparr>maxTokens = Some 5000, supportsPromptCache = False\<rparr>"
    by (simp add: getModel_def sample_defs)
  from nova other info
    nova_extension_fields
      [of sampleApi novaOptions "\<lparr>maxTokens = Some 5000, supportsPromptCache = False\<rparr>"
          "''Be brief.''" "[]"]
    nova_extension_fields
      [of sampleApi defaultOptions "\<lparr>maxTokens = Some 8192, supportsPromptCache = True\<rparr>"
          "''Be brief.''" "[]"]
  show ?thesis by simp
qed

subsection \<open>The content formatter\<close>

text \<open>
  Claim C8. For every sequence of content blocks \<^verbatim>\<open>formatContent\<close> returns a string and
  never fails: each block gives exactly one fragment (a text block its text, an image
  block \<^verbatim>\<open>[Image: \<close>source\<^verbatim>\<open>]\<close>, a tool-use block \<^verbatim>\<open>[Tool: \<close>name\<^verbatim>\<open>]\<close>, a block with any
  other tag \<^verbatim>\<open>[Unknown Block]\<close>), and the fragments are joined in the order of the blocks
  with one space between two neighbours. The blocks Text("hi"), Image("s3://x"),
  ToolUse("search") and a block with an unknown tag give
  \<^verbatim>\<open>hi [Image: s3://x] [Tool: search] [Unknown Block]\<close>.
\<close>

theorem formatContent_fragments:
  "formatContent bs = join '' '' (map fragment_spec bs) \<and>
   formatContent [] = [] \<and>
   formatContent [b] = fragment_spec b \<and>
   (bs \<noteq> [] \<longrightarrow> formatContent (b # bs) = fragment_spec b @ '' '' @ formatContent bs) \<and>
   formatContent [TextBlock ''hi'', ImageBlock ''s3://x'', ToolUseBlock ''search'', UnknownBlock tag]
     = ''hi [Image: s3://x] [Tool: search] [Unknown Block]''"
  by (simp add: formatContent_spec join_Cons)

theorem formatContent_fragments_witness:
  "[ImageBlock ''s3://x'', UnknownBlock ''video''] \<noteq> [] \<and>
   formatContent [TextBlock ''hi'', ImageBlock ''s3://x'', UnknownBlock ''video'']
     = ''hi [Image: s3://x] [Unknown Block]''"
  using formatContent_fragments
    [of "[ImageBlock ''s3://x'', UnknownBlock ''video'']" "TextBlock ''hi''"]
  by (simp add: formatContent_spec)

subsection \<open>The selection predicate\<close>

text \<open>
  Claim C9. For every options value the static predicate \<^verbatim>\<open>shouldUseRuntime\<close> is true if
  and only if the requested model identifier (the default identifier when none is
  requested), compared without regard to case, contains \<^verbatim>\<open>nova\<close>, or the flag
  \<^verbatim>\<open>useBedrockRuntime\<close> is set. It is a function of the options and the imported default
  alone. The code lower-cases the requested identifier and not the default, which is
  taken to be in lower case as the identifiers of the catalogue are.
\<close>

theorem shouldUseRuntime_iff:
  assumes "apiModelId options = None \<or> apiModelId options = Some [] \<Longrightarrow>
           toLowerCase (bedrockDefaultModelId api) = bedrockDefaultModelId api"
  shows "shouldUseRuntime api options =
           (isNovaFamily (requestedId api options) \<or> useBedrockRuntime options = Some True)"
proof (cases "apiModelId options")
  case None
  with assms have "toLowerCase (bedrockDefaultModelId api) = bedrockDefaultModelId api"
    by simp
  with None show ?thesis
    by (simp add: shouldUseRuntime_def isNovaFamily_def requestedId_def str_or_def)
next
  case (Some s)
  show ?thesis
  proof (cases "s = []")
    case True
    with Some assms have "toLowerCase (bedrockDefaultModelId api) = bedrockDefaultModelId api"
      by simp
    with Some True show ?thesis
      by (simp add: shouldUseRuntime_def isNovaFamily_def requestedId_def str_or_def
          toLowerCase_def)
  next
    case False
    with Some show ?thesis
      by (simp add: shouldUseRuntime_def isNovaFamily_def requestedId_def str_or_def
          toLowerCase_Nil_iff)
  qed
qed

theorem shouldUseRuntime_iff_witness:
  "toLowerCase (bedrockDefaultModelId sampleApi) = bedrockDefaultModelId sampleApi \<and>
   \<not> shouldUseRuntime sampleApi defaultOptions \<and>
   shouldUseRuntime sampleApi (defaultOptions\<lparr>useBedrockRuntime := Some True\<rparr>) \<and>
   shouldUseRuntime sampleApi (defaultOptions\<lparr>apiModelId := Some ''AMAZON.NOVA-LITE-V1''\<rparr>) \<and>
   shouldUseRuntime sampleApi (defaultOptions\<lparr>apiModelId := Some ''amazon.nova-lite-v1''\<rparr>) \<and>
   \<not> shouldUseRuntime sampleApi (defaultOptions\<lparr>apiModelId := Some ''anthropic.claude-3''\<rparr>)"
proof -
  have lower: "toLowerCase (bedrockDefaultModelId sampleApi) = bedrockDefaultModelId sampleApi"
    by (simp add: sample_defs string_defs)
  from lower
    shouldUseRuntime_iff [of defaultOptions sampleApi]
    shouldUseRuntime_iff [of "defaultOptions\<lparr>useBedrockRuntime := Some True\<rparr>" sampleApi]
    shouldUseRuntime_iff [of "defaultOptions\<lparr>apiModelId := Some ''AMAZON.NOVA-LITE-V1''\<rparr>" sampleApi]
    shouldUseRuntime_iff [of "defaultOptions\<lparr>apiModelId := Some ''amazon.nova-lite-v1''\<rparr>" sampleApi]
    shouldUseRuntime_iff [of "defaultOptions\<lparr>apiModelId := Some ''anthropic.claude-3''\<rparr>" sampleApi]
  show ?thesis
    by (simp add: isNovaFamily_def requestedId_def sample_defs string_defs)
qed

subsection \<open>Deltas with empty text\<close>

text \<open>
  Claim C10. A \<^verbatim>\<open>content_block_delta\<close> frame whose delta text is the empty string yields no
  event and leaves the state, \<open>hasStarted\<close> included, as it is. So for every frame
  sequence in which every \<^verbatim>\<open>content_block_delta\<close> frame carries the empty text, the
  generator ends with the error "No content was generated by the model", although
  \<^verbatim>\<open>content_block_delta\<close> frames were received.
\<close>

theorem empty_text_delta_ignored:
  "(type d = Some ''content_block_delta'' \<and> Option.bind (delta d) text = Some [] \<longrightarrow>
      onFrame s d = (s, [])) \<and>
   ((\<forall>d\<in>set fs. type d = Some ''content_block_delta'' \<longrightarrow> Option.bind (delta d) text = Some [])
      \<longrightarrow> snd (decodeStream (frames fs)) = Some NoContentGenerated)"
proof (intro conjI impI)
  assume "type d = Some ''content_block_delta'' \<and> Option.bind (delta d) text = Some []"
  then show "onFrame s d = (s, [])"
    by (simp add: onFrame_def)
next
  assume "\<forall>d\<in>set fs. type d = Some ''content_block_delta'' \<longrightarrow>
            Option.bind (delta d) text = Some []"
  then have "\<forall>d\<in>set fs. \<not> carriesText d"
    by (auto simp: carriesText_def)
  then show "snd (decodeStream (frames fs)) = Some NoContentGenerated"
    by (simp add: decodeStream_frames_silent)
qed

theorem empty_text_delta_ignored_witness:
  "type (content_block_delta_frame (Some [])) = Some ''content_block_delta'' \<and>
   Option.bind (delta (content_block_delta_frame (Some []))) text = Some [] \<and>
   onFrame initialState (content_block_delta_frame (Some [])) = (initialState, []) \<and>
   list_all (\<lambda>d. type d = Some ''content_block_delta'' \<longrightarrow> Option.bind (delta d) text = Some [])
     [message_start_frame (Some \<lparr>input_tokens = Some 3, output_tokens = Some 0\<rparr>),
      content_block_delta_frame (Some []),
      content_block_delta_frame (Some []),
      message_stop_frame] \<and>
   snd (decodeStream (frames
          [message_start_frame (Some \<lparr>input_tokens = Some 3, output_tokens = Some 0\<rparr>),
           content_block_delta_frame (Some []),
           content_block_delta_frame (Some []),
           message_stop_frame])) = Some NoContentGenerated"
  using empty_text_delta_ignored
    [of "content_block_delta_frame (Some [])" initialState
        "[message_start_frame (Some \<lparr>input_tokens = Some 3, output_tokens = Some 0\<rparr>),
          content_block_delta_frame (Some []),
          content_block_delta_frame (Some []),
          message_stop_frame]"]
  by (simp add: frame_defs)

end
